theory Spec2Isabelle
  imports Main
begin

section \<open>Go values, types and the part of package reflect that attr.go uses\<close>

text \<open>
  Package attr (attr.go) is written on top of Go's package reflect. The functions of
  attr.go are translated below one by one; the reflect operations they call are modelled
  in this section, each under the name it has in Go (\<open>Value_Kind\<close>, \<open>Value_Type\<close>,
  \<open>Type_Field\<close> and \<open>Type_FieldByName\<close> carry their receiver's name, and the kind
  \<open>Int\<close> is written \<open>Int'\<close>). A call that makes reflect panic is the result
  \<open>Panic\<close>, so that a result \<open>Return x\<close> of a function of attr.go says that no
  reflect call on the way panicked.

  Scope of the model: struct types whose fields are all declared by name (no embedded
  field, so that \<open>FieldByName\<close> looks at the struct's own fields only), and pointers to
  whole variables (no pointer into the middle of a struct).
\<close>

datatype 'a outcome = Panic | Return 'a

subsection \<open>Kinds and types\<close>

text \<open>
  The kinds of reflect. attr.go tells \<open>Ptr\<close> and \<open>Struct\<close> from the rest; reflect makes
  \<open>Invalid\<close> the kind of the zero Value and \<open>Interface\<close> the kind of a variable of
  interface type. The other 23 kinds are those of values that attr.go never looks into.
\<close>

datatype OtherKind =
    Bool | Int' | Int8 | Int16 | Int32 | Int64
  | Uint | Uint8 | Uint16 | Uint32 | Uint64 | Uintptr
  | Float32 | Float64 | Complex64 | Complex128
  | Array | Chan | Func | Map | Slice | String | UnsafePointer

datatype Kind = Invalid | Interface | Ptr | Struct | Other OtherKind

fun OtherKind_String :: "OtherKind \<Rightarrow> string" where
  "OtherKind_String Bool = ''bool''"
| "OtherKind_String Int' = ''int''"
| "OtherKind_String Int8 = ''int8''"
| "OtherKind_String Int16 = ''int16''"
| "OtherKind_String Int32 = ''int32''"
| "OtherKind_String Int64 = ''int64''"
| "OtherKind_String Uint = ''uint''"
| "OtherKind_String Uint8 = ''uint8''"
| "OtherKind_String Uint16 = ''uint16''"
| "OtherKind_String Uint32 = ''uint32''"
| "OtherKind_String Uint64 = ''uint64''"
| "OtherKind_String Uintptr = ''uintptr''"
| "OtherKind_String Float32 = ''float32''"
| "OtherKind_String Float64 = ''float64''"
| "OtherKind_String Complex64 = ''complex64''"
| "OtherKind_String Complex128 = ''complex128''"
| "OtherKind_String Array = ''array''"
| "OtherKind_String Chan = ''chan''"
| "OtherKind_String Func = ''func''"
| "OtherKind_String Map = ''map''"
| "OtherKind_String Slice = ''slice''"
| "OtherKind_String String = ''string''"
| "OtherKind_String UnsafePointer = ''unsafe.Pointer''"

fun Kind_String :: "Kind \<Rightarrow> string" where
  "Kind_String Invalid = ''invalid''"
| "Kind_String Interface = ''interface''"
| "Kind_String Ptr = ''ptr''"
| "Kind_String Struct = ''struct''"
| "Kind_String (Other k) = OtherKind_String k"

text \<open>
  A struct tag is kept as the list of its \<open>key:"value"\<close> pairs, in the order they are
  written; \<open>Tag.Get\<close> returns the value of the first pair with the key, and the empty
  string when there is none.
\<close>

type_synonym StructTag = "(string \<times> string) list"

definition Tag_Get :: "StructTag \<Rightarrow> string \<Rightarrow> string" where
  "Tag_Get tag key = (case map_of tag key of None \<Rightarrow> '''' | Some v \<Rightarrow> v)"

text \<open>
  Types are compared by identity in Go; here a type is a term and identity is equality.
  A type that is neither a pointer, an interface nor a struct is its kind and its name
  (\<open>int\<close>, \<open>float64\<close>, \<open>[]string\<close>, \<open>main.Celsius\<close>). \<open>StructField\<close> is
  reflect's description of one declared field; \<open>PkgPath\<close> is empty exactly for an
  exported field.
\<close>

datatype rtype =
    OtherType OtherKind string
  | PtrTo rtype
  | InterfaceType string
  | StructType string "StructField list"
and StructField =
    StructField (Name: string) (PkgPath: string) (FType: rtype) (Tag: StructTag)

fun rtype_Kind :: "rtype \<Rightarrow> Kind" where
  "rtype_Kind (OtherType k n) = Other k"
| "rtype_Kind (PtrTo t) = Ptr"
| "rtype_Kind (InterfaceType n) = Interface"
| "rtype_Kind (StructType n fds) = Struct"

subsection \<open>Values and the heap\<close>

text \<open>
  A value carries its dynamic type, as a value held in an \<open>interface{}\<close> does. A struct
  value is the list of its members in declaration order, each with its name, package
  path, tag and current content. The content of a variable or of a field (a \<open>slot\<close>) is
  a value of the declared type or, when the declared type is an interface type, the
  interface's name with what it holds: nothing (nil) or a value with its dynamic type.
  The payload of the values that attr.go never looks into is opaque.
\<close>

type_synonym addr = nat

datatype payload = B bool | I int | S string | Raw nat

datatype gvalue =
    OtherV OtherKind string payload
  | PointerV rtype "addr option"
  | StructV string "member list"
and member =
    Member (mname: string) (mpkg: string) (mtag: StructTag) (mslot: slot)
and slot =
    Direct gvalue
  | Boxed string "gvalue option"

text \<open>The argument of a parameter of type \<open>interface{}\<close>: nil, or a value.\<close>

type_synonym any = "gvalue option"

text \<open>
  The heap gives every address the content of the variable there. A pointer \<open>*T\<close> that is
  not nil holds the address of a variable of type \<open>T\<close>.
\<close>

type_synonym heap = "addr \<Rightarrow> slot"

primrec gvalue_Type :: "gvalue \<Rightarrow> rtype"
  and member_decl :: "member \<Rightarrow> StructField"
  and slot_Type :: "slot \<Rightarrow> rtype" where
  "gvalue_Type (OtherV k n d) = OtherType k n"
| "gvalue_Type (PointerV t p) = PtrTo t"
| "gvalue_Type (StructV n ms) = StructType n (map member_decl ms)"
| "member_decl (Member nm pk tg s) = StructField nm pk (slot_Type s) tg"
| "slot_Type (Direct v) = gvalue_Type v"
| "slot_Type (Boxed n c) = InterfaceType n"

text \<open>
  \<open>reflect.Type\<close> is an interface: \<open>reflect.TypeOf(nil)\<close> is the nil Type, here
  \<open>None\<close>.
\<close>

type_synonym Type = "rtype option"

definition TypeOf :: "any \<Rightarrow> Type" where
  "TypeOf i = (case i of None \<Rightarrow> None | Some v \<Rightarrow> Some (gvalue_Type v))"

subsection \<open>reflect.Value\<close>

text \<open>
  A \<open>reflect.Value\<close> is the zero Value or a content with two flags: where the content
  lives when it is addressable (the address of a variable and the path of field indices
  from there), and whether it was reached through an unexported field (read-only).
\<close>

datatype Value =
    ZeroValue
  | Value (content: slot) (place: "(addr \<times> nat list) option") (flagRO: bool)

definition ValueOf :: "any \<Rightarrow> Value" where
  "ValueOf i = (case i of None \<Rightarrow> ZeroValue | Some v \<Rightarrow> Value (Direct v) None False)"

fun IsValid :: "Value \<Rightarrow> bool" where
  "IsValid ZeroValue = False"
| "IsValid (Value s pl ro) = True"

fun Value_Kind :: "Value \<Rightarrow> Kind" where
  "Value_Kind ZeroValue = Invalid"
| "Value_Kind (Value s pl ro) = rtype_Kind (slot_Type s)"

fun Value_Type :: "Value \<Rightarrow> Type outcome" where
  "Value_Type ZeroValue = Panic"
| "Value_Type (Value s pl ro) = Return (Some (slot_Type s))"

text \<open>
  \<open>Elem\<close>: the variable a pointer points to (addressable), or what an interface holds;
  the zero Value for a nil pointer and a nil interface; a panic for every other kind.
\<close>

fun Elem :: "heap \<Rightarrow> Value \<Rightarrow> Value outcome" where
  "Elem h (Value (Direct (PointerV t None)) pl ro) = Return ZeroValue"
| "Elem h (Value (Direct (PointerV t (Some a))) pl ro) = Return (Value (h a) (Some (a, [])) ro)"
| "Elem h (Value (Boxed n None) pl ro) = Return ZeroValue"
| "Elem h (Value (Boxed n (Some v)) pl ro) = Return (Value (Direct v) None ro)"
| "Elem h v = Panic"

fun NumField :: "Value \<Rightarrow> nat outcome" where
  "NumField (Value (Direct (StructV n ms)) pl ro) = Return (length ms)"
| "NumField v = Panic"

text \<open>
  \<open>Field(i)\<close> of a struct Value: the content of member \<open>i\<close>, addressable when the
  struct is, read-only when the struct is or when the field is unexported.
\<close>

fun Field :: "Value \<Rightarrow> nat \<Rightarrow> Value outcome" where
  "Field (Value (Direct (StructV n ms)) pl ro) i =
     (if i < length ms
      then Return (Value (mslot (ms ! i))
                         (case pl of None \<Rightarrow> None | Some (a, p) \<Rightarrow> Some (a, p @ [i]))
                         (ro \<or> mpkg (ms ! i) \<noteq> ''''))
      else Panic)"
| "Field v i = Panic"

text \<open>
  \<open>Type.Field(i)\<close> and \<open>Type.FieldByName(name)\<close> of a struct type. The second returns
  the first declared field with the name, with its index, and finds nothing for the empty
  name; \<open>None\<close> is reflect's \<open>found = false\<close>.
\<close>

fun Type_Field :: "Type \<Rightarrow> nat \<Rightarrow> StructField outcome" where
  "Type_Field (Some (StructType n fds)) i = (if i < length fds then Return (fds ! i) else Panic)"
| "Type_Field t i = Panic"

fun field_index :: "string \<Rightarrow> StructField list \<Rightarrow> nat option" where
  "field_index name [] = None"
| "field_index name (f # fds) =
     (if Name f = name then Some 0 else map_option Suc (field_index name fds))"

fun Type_FieldByName :: "Type \<Rightarrow> string \<Rightarrow> (nat \<times> StructField) option outcome" where
  "Type_FieldByName (Some (StructType n fds)) name =
     Return (if name = '''' then None
             else case field_index name fds of
                    None \<Rightarrow> None
                  | Some i \<Rightarrow> Some (i, fds ! i))"
| "Type_FieldByName t name = Panic"

text \<open>
  \<open>Value.FieldByName\<close> looks the name up in the type and takes the field at the index
  found; the zero Value when there is no such field.
\<close>

fun FieldByName :: "Value \<Rightarrow> string \<Rightarrow> Value outcome" where
  "FieldByName (Value (Direct (StructV n ms)) pl ro) name =
     (case Type_FieldByName (Some (gvalue_Type (StructV n ms))) name of
        Panic \<Rightarrow> Panic
      | Return None \<Rightarrow> Return ZeroValue
      | Return (Some (i, f)) \<Rightarrow> Field (Value (Direct (StructV n ms)) pl ro) i)"
| "FieldByName v name = Panic"

fun CanInterface :: "Value \<Rightarrow> bool outcome" where
  "CanInterface ZeroValue = Panic"
| "CanInterface (Value s pl ro) = Return (\<not> ro)"

text \<open>
  \<open>Interface\<close> returns the content as an \<open>interface{}\<close>: for a content of interface
  type, what the interface holds.
\<close>

fun slot_any :: "slot \<Rightarrow> any" where
  "slot_any (Direct v) = Some v"
| "slot_any (Boxed n c) = c"

fun Interface :: "Value \<Rightarrow> any outcome" where
  "Interface ZeroValue = Panic"
| "Interface (Value s pl ro) = (if ro then Panic else Return (slot_any s))"

fun CanSet :: "Value \<Rightarrow> bool" where
  "CanSet ZeroValue = False"
| "CanSet (Value s pl ro) = (pl \<noteq> None \<and> \<not> ro)"

text \<open>
  Writing through a place: \<open>assign_at s p new\<close> is the content \<open>s\<close> of a variable after
  the part of it at path \<open>p\<close> has been replaced by \<open>new\<close>. The places that \<open>Elem\<close>
  and \<open>Field\<close> make are paths to members; a path that leaves the struct, which no
  Value has, changes nothing.
\<close>

fun assign_at :: "slot \<Rightarrow> nat list \<Rightarrow> slot \<Rightarrow> slot" where
  "assign_at s [] new = new"
| "assign_at (Direct (StructV n ms)) (i # p) new =
     Direct (StructV n (ms[i := Member (mname (ms ! i)) (mpkg (ms ! i)) (mtag (ms ! i))
                                       (assign_at (mslot (ms ! i)) p new)]))"
| "assign_at s (i # p) new = s"

text \<open>
  \<open>v.Set(x)\<close> panics unless \<open>v\<close> can be set and \<open>x\<close> is a valid Value that is not
  read-only. With \<open>x\<close> of the very type of \<open>v\<close> the content of \<open>x\<close> is stored at the
  place of \<open>v\<close>. (With another type reflect converts \<open>x\<close> when it is assignable and
  panics otherwise; \<open>SetValue\<close> compares the two types before it calls \<open>Set\<close>, and the
  model has \<open>Panic\<close> for that whole case.)
\<close>

fun Set :: "heap \<Rightarrow> Value \<Rightarrow> Value \<Rightarrow> heap outcome" where
  "Set h (Value s (Some (a, p)) ro) (Value x plx rox) =
     (if \<not> ro \<and> \<not> rox \<and> slot_Type s = slot_Type x
      then Return (h(a := assign_at (h a) p x))
      else Panic)"
| "Set h v x = Panic"


section \<open>Package attr (attr.go)\<close>

text \<open>
  The five error values of attr.go. A Go result \<open>(x, err)\<close> is a sum: \<open>Inl err\<close> when
  \<open>err\<close> is not nil (attr.go then returns the zero value of its type for \<open>x\<close>),
  \<open>Inr x\<close> otherwise. An \<open>error\<close> result alone is an \<open>error option\<close>, with
  \<open>None\<close> for nil.
\<close>

datatype error =
    ErrNoField
  | ErrNotPtr
  | ErrNotStruct
  | ErrUnexportedField
  | ErrMismatchValue

text \<open>\<open>getReflectValue\<close> (attr.go, lines 248 to 261).\<close>

definition getReflectValue :: "heap \<Rightarrow> any \<Rightarrow> (error + Value) outcome" where
  "getReflectValue h obj =
     (let value = ValueOf obj in
      if Value_Kind value = Struct then Return (Inr value)
      else if Value_Kind value = Ptr then
        (case Elem h value of
           Panic \<Rightarrow> Panic
         | Return e \<Rightarrow>
             if Value_Kind e = Struct
             then (case Elem h value of Panic \<Rightarrow> Panic | Return e' \<Rightarrow> Return (Inr e'))
             else Return (Inl ErrNotStruct))
      else Return (Inl ErrNotStruct))"

text \<open>\<open>GetValue\<close> (lines 51 to 67).\<close>

definition GetValue :: "heap \<Rightarrow> any \<Rightarrow> string \<Rightarrow> (error + any) outcome" where
  "GetValue h obj fieldName =
     (case getReflectValue h obj of
        Panic \<Rightarrow> Panic
      | Return (Inl err) \<Rightarrow> Return (Inl err)
      | Return (Inr objValue) \<Rightarrow>
     (case FieldByName objValue fieldName of
        Panic \<Rightarrow> Panic
      | Return fieldValue \<Rightarrow>
          if \<not> IsValid fieldValue then Return (Inl ErrNoField)
          else
     (case CanInterface fieldValue of
        Panic \<Rightarrow> Panic
      | Return ok \<Rightarrow>
          if \<not> ok then Return (Inl ErrUnexportedField)
          else
     (case Interface fieldValue of
        Panic \<Rightarrow> Panic
      | Return v \<Rightarrow> Return (Inr v)))))"

text \<open>\<open>Has\<close> (lines 71 to 80).\<close>

definition Has :: "heap \<Rightarrow> any \<Rightarrow> string \<Rightarrow> (error + bool) outcome" where
  "Has h obj fieldName =
     (case getReflectValue h obj of
        Panic \<Rightarrow> Panic
      | Return (Inl err) \<Rightarrow> Return (Inl err)
      | Return (Inr objValue) \<Rightarrow>
     (case Value_Type objValue of
        Panic \<Rightarrow> Panic
      | Return structType \<Rightarrow>
     (case Type_FieldByName structType fieldName of
        Panic \<Rightarrow> Panic
      | Return r \<Rightarrow> Return (Inr (r \<noteq> None)))))"

text \<open>
  \<open>SetValue\<close> (lines 87 to 113). The heap is passed in and returned: the only write is
  the \<open>Set\<close> of the last line.
\<close>

definition SetValue :: "heap \<Rightarrow> any \<Rightarrow> string \<Rightarrow> any \<Rightarrow> (error option \<times> heap) outcome" where
  "SetValue h obj fieldName newValue =
     (let objValue = ValueOf obj in
      if Value_Kind objValue \<noteq> Ptr then Return (Some ErrNotPtr, h)
      else
     (case Elem h objValue of
        Panic \<Rightarrow> Panic
      | Return objValue \<Rightarrow>
          if Value_Kind objValue \<noteq> Struct then Return (Some ErrNotStruct, h)
          else
     (case FieldByName objValue fieldName of
        Panic \<Rightarrow> Panic
      | Return fieldValue \<Rightarrow>
          if \<not> IsValid fieldValue then Return (Some ErrNoField, h)
          else
     (case Value_Type fieldValue of
        Panic \<Rightarrow> Panic
      | Return t \<Rightarrow>
          if t \<noteq> TypeOf newValue then Return (Some ErrMismatchValue, h)
          else if \<not> CanSet fieldValue then Return (Some ErrUnexportedField, h)
          else
     (case Set h fieldValue (ValueOf newValue) of
        Panic \<Rightarrow> Panic
      | Return h' \<Rightarrow> Return (None, h'))))))"

text \<open>
  \<open>Names\<close> (lines 117 to 135). The \<open>for\<close> loop over the field indices is the function
  \<open>Names_loop\<close>: its arguments are the variables the loop reads and writes, and
  \<open>NumField\<close> is called before every round, as in the source.
\<close>

function Names_loop :: "Value \<Rightarrow> Type \<Rightarrow> nat \<Rightarrow> string list \<Rightarrow> string list outcome" where
  "Names_loop objValue objType i fieldNames =
     (case NumField objValue of
        Panic \<Rightarrow> Panic
      | Return n \<Rightarrow>
          if i < n then
            (case Type_Field objType i of
               Panic \<Rightarrow> Panic
             | Return fieldType \<Rightarrow>
            (case Field objValue i of
               Panic \<Rightarrow> Panic
             | Return fieldValue \<Rightarrow>
            (case CanInterface fieldValue of
               Panic \<Rightarrow> Panic
             | Return ok \<Rightarrow>
                 Names_loop objValue objType (i + 1)
                   (if ok then fieldNames @ [Name fieldType] else fieldNames))))
          else Return fieldNames)"
  by pat_completeness auto
termination
  by (relation "measure (\<lambda>(v, t, i, acc). case NumField v of Panic \<Rightarrow> 0 | Return n \<Rightarrow> n - i)")
     auto

declare Names_loop.simps [simp del]

definition Names :: "heap \<Rightarrow> any \<Rightarrow> (error + string list) outcome" where
  "Names h obj =
     (case getReflectValue h obj of
        Panic \<Rightarrow> Panic
      | Return (Inl err) \<Rightarrow> Return (Inl err)
      | Return (Inr objValue) \<Rightarrow>
     (case Value_Type objValue of
        Panic \<Rightarrow> Panic
      | Return objType \<Rightarrow>
     (case Names_loop objValue objType 0 [] of
        Panic \<Rightarrow> Panic
      | Return fieldNames \<Rightarrow> Return (Inr fieldNames))))"

text \<open>
  \<open>Values\<close> (lines 139 to 157). A Go map is a finite map; \<open>valueMap[k] = v\<close> is
  \<open>valueMap(k \<mapsto> v)\<close>.
\<close>

function Values_loop :: "Value \<Rightarrow> Type \<Rightarrow> nat \<Rightarrow> (string \<rightharpoonup> any) \<Rightarrow> (string \<rightharpoonup> any) outcome" where
  "Values_loop objValue objType i valueMap =
     (case NumField objValue of
        Panic \<Rightarrow> Panic
      | Return n \<Rightarrow>
          if i < n then
            (case Type_Field objType i of
               Panic \<Rightarrow> Panic
             | Return fieldType \<Rightarrow>
            (case Field objValue i of
               Panic \<Rightarrow> Panic
             | Return fieldValue \<Rightarrow>
            (case CanInterface fieldValue of
               Panic \<Rightarrow> Panic
             | Return ok \<Rightarrow>
                 if ok then
                   (case Interface fieldValue of
                      Panic \<Rightarrow> Panic
                    | Return v \<Rightarrow>
                        Values_loop objValue objType (i + 1) (valueMap(Name fieldType \<mapsto> v)))
                 else Values_loop objValue objType (i + 1) valueMap)))
          else Return valueMap)"
  by pat_completeness auto
termination
  by (relation "measure (\<lambda>(v, t, i, acc). case NumField v of Panic \<Rightarrow> 0 | Return n \<Rightarrow> n - i)")
     auto

declare Values_loop.simps [simp del]

definition Values :: "heap \<Rightarrow> any \<Rightarrow> (error + (string \<rightharpoonup> any)) outcome" where
  "Values h obj =
     (case getReflectValue h obj of
        Panic \<Rightarrow> Panic
      | Return (Inl err) \<Rightarrow> Return (Inl err)
      | Return (Inr objValue) \<Rightarrow>
     (case Value_Type objValue of
        Panic \<Rightarrow> Panic
      | Return objType \<Rightarrow>
     (case Values_loop objValue objType 0 Map.empty of
        Panic \<Rightarrow> Panic
      | Return valueMap \<Rightarrow> Return (Inr valueMap))))"

text \<open>\<open>GetTag\<close> (lines 161 to 178).\<close>

definition GetTag :: "heap \<Rightarrow> any \<Rightarrow> string \<Rightarrow> string \<Rightarrow> (error + string) outcome" where
  "GetTag h obj fieldName tagKey =
     (case getReflectValue h obj of
        Panic \<Rightarrow> Panic
      | Return (Inl err) \<Rightarrow> Return (Inl err)
      | Return (Inr objValue) \<Rightarrow>
     (case Value_Type objValue of
        Panic \<Rightarrow> Panic
      | Return structType \<Rightarrow>
     (case Type_FieldByName structType fieldName of
        Panic \<Rightarrow> Panic
      | Return None \<Rightarrow> Return (Inl ErrNoField)
      | Return (Some (i, field)) \<Rightarrow>
          if PkgPath field \<noteq> '''' then Return (Inl ErrUnexportedField)
          else Return (Inr (Tag_Get (Tag field) tagKey)))))"

text \<open>\<open>Tags\<close> (lines 182 to 200).\<close>

function Tags_loop :: "Value \<Rightarrow> Type \<Rightarrow> string \<Rightarrow> nat \<Rightarrow> (string \<rightharpoonup> string) \<Rightarrow> (string \<rightharpoonup> string) outcome" where
  "Tags_loop objValue objType tagKey i tagMap =
     (case NumField objValue of
        Panic \<Rightarrow> Panic
      | Return n \<Rightarrow>
          if i < n then
            (case Type_Field objType i of
               Panic \<Rightarrow> Panic
             | Return fieldType \<Rightarrow>
            (case Field objValue i of
               Panic \<Rightarrow> Panic
             | Return fieldValue \<Rightarrow>
            (case CanInterface fieldValue of
               Panic \<Rightarrow> Panic
             | Return ok \<Rightarrow>
                 Tags_loop objValue objType tagKey (i + 1)
                   (if ok then tagMap(Name fieldType \<mapsto> Tag_Get (Tag fieldType) tagKey)
                    else tagMap))))
          else Return tagMap)"
  by pat_completeness auto
termination
  by (relation "measure (\<lambda>(v, t, k, i, acc). case NumField v of Panic \<Rightarrow> 0 | Return n \<Rightarrow> n - i)")
     auto

declare Tags_loop.simps [simp del]

definition Tags :: "heap \<Rightarrow> any \<Rightarrow> string \<Rightarrow> (error + (string \<rightharpoonup> string)) outcome" where
  "Tags h obj tagKey =
     (case getReflectValue h obj of
        Panic \<Rightarrow> Panic
      | Return (Inl err) \<Rightarrow> Return (Inl err)
      | Return (Inr objValue) \<Rightarrow>
     (case Value_Type objValue of
        Panic \<Rightarrow> Panic
      | Return objType \<Rightarrow>
     (case Tags_loop objValue objType tagKey 0 Map.empty of
        Panic \<Rightarrow> Panic
      | Return tagMap \<Rightarrow> Return (Inr tagMap))))"

text \<open>\<open>GetKind\<close> (lines 204 to 220).\<close>

definition GetKind :: "heap \<Rightarrow> any \<Rightarrow> string \<Rightarrow> (error + string) outcome" where
  "GetKind h obj fieldName =
     (case getReflectValue h obj of
        Panic \<Rightarrow> Panic
      | Return (Inl err) \<Rightarrow> Return (Inl err)
      | Return (Inr objValue) \<Rightarrow>
     (case FieldByName objValue fieldName of
        Panic \<Rightarrow> Panic
      | Return fieldValue \<Rightarrow>
          if \<not> IsValid fieldValue then Return (Inl ErrNoField)
          else
     (case CanInterface fieldValue of
        Panic \<Rightarrow> Panic
      | Return ok \<Rightarrow>
          if \<not> ok then Return (Inl ErrUnexportedField)
          else Return (Inr (Kind_String (Value_Kind fieldValue))))))"

text \<open>\<open>Kinds\<close> (lines 224 to 242).\<close>

function Kinds_loop :: "Value \<Rightarrow> Type \<Rightarrow> nat \<Rightarrow> (string \<rightharpoonup> string) \<Rightarrow> (string \<rightharpoonup> string) outcome" where
  "Kinds_loop objValue objType i kindMap =
     (case NumField objValue of
        Panic \<Rightarrow> Panic
      | Return n \<Rightarrow>
          if i < n then
            (case Type_Field objType i of
               Panic \<Rightarrow> Panic
             | Return fieldType \<Rightarrow>
            (case Field objValue i of
               Panic \<Rightarrow> Panic
             | Return fieldValue \<Rightarrow>
            (case CanInterface fieldValue of
               Panic \<Rightarrow> Panic
             | Return ok \<Rightarrow>
                 Kinds_loop objValue objType (i + 1)
                   (if ok then kindMap(Name fieldType \<mapsto> Kind_String (Value_Kind fieldValue))
                    else kindMap))))
          else Return kindMap)"
  by pat_completeness auto
termination
  by (relation "measure (\<lambda>(v, t, i, acc). case NumField v of Panic \<Rightarrow> 0 | Return n \<Rightarrow> n - i)")
     auto

declare Kinds_loop.simps [simp del]

definition Kinds :: "heap \<Rightarrow> any \<Rightarrow> (error + (string \<rightharpoonup> string)) outcome" where
  "Kinds h obj =
     (case getReflectValue h obj of
        Panic \<Rightarrow> Panic
      | Return (Inl err) \<Rightarrow> Return (Inl err)
      | Return (Inr objValue) \<Rightarrow>
     (case Value_Type objValue of
        Panic \<Rightarrow> Panic
      | Return objType \<Rightarrow>
     (case Kinds_loop objValue objType 0 Map.empty of
        Panic \<Rightarrow> Panic
      | Return kindMap \<Rightarrow> Return (Inr kindMap))))"

section \<open>Vocabulary of the properties\<close>

text \<open>
  The struct an argument denotes: the argument itself when it is a struct, the variable
  it points to when it is a pointer to a struct variable, and none in every other case
  (nil, a nil pointer, a pointer to anything else, any other value).
\<close>

fun struct_of :: "heap \<Rightarrow> any \<Rightarrow> (string \<times> member list) option" where
  "struct_of h (Some (StructV n ms)) = Some (n, ms)"
| "struct_of h (Some (PointerV t (Some a))) =
     (case h a of Direct (StructV n ms) \<Rightarrow> Some (n, ms) | _ \<Rightarrow> None)"
| "struct_of h obj = None"

text \<open>
  Member \<open>i\<close> is the field called \<open>name\<close>: the first member with that name. (Go
  allows a name once in a struct, the blank name \<open>_\<close> aside.)
\<close>

definition is_field :: "member list \<Rightarrow> string \<Rightarrow> nat \<Rightarrow> bool" where
  "is_field ms name i \<longleftrightarrow>
     name \<noteq> '''' \<and> i < length ms \<and> mname (ms ! i) = name \<and> (\<forall>j<i. mname (ms ! j) \<noteq> name)"

text \<open>A member is exported (visible) when its package path is empty.\<close>

definition exported :: "member \<Rightarrow> bool" where
  "exported m \<longleftrightarrow> mpkg m = ''''"

text \<open>
  What the Go compiler guarantees about the fields of a struct type: a name other than
  the blank \<open>_\<close> is declared once, and a blank field is not exported.
\<close>

definition go_fields :: "member list \<Rightarrow> bool" where
  "go_fields ms \<longleftrightarrow>
     distinct (filter (\<lambda>x. x \<noteq> ''_'') (map mname ms)) \<and>
     (\<forall>m \<in> set ms. mname m = ''_'' \<longrightarrow> \<not> exported m)"

text \<open>Member \<open>i\<close> with a new content; everything else of the struct as it was.\<close>

definition with_slot :: "member list \<Rightarrow> nat \<Rightarrow> slot \<Rightarrow> member list" where
  "with_slot ms i s = ms[i := Member (mname (ms ! i)) (mpkg (ms ! i)) (mtag (ms ! i)) s]"

subsection \<open>The struct of the package's tests\<close>

text \<open>
  \<open>User{"srathi", 30, "my_secret_123"}\<close> of attr_test.go, the variable \<open>user\<close> at
  address 0, a pointer to it at address 1, and an \<open>int\<close> at address 2.
\<close>

definition string_t :: rtype where "string_t = OtherType String ''string''"
definition int_t :: rtype where "int_t = OtherType Int' ''int''"

definition str :: "string \<Rightarrow> gvalue" where "str s = OtherV String ''string'' (S s)"
definition int_v :: "int \<Rightarrow> gvalue" where "int_v k = OtherV Int' ''int'' (I k)"

text \<open>The \<open>float64\<close> 40.5, by its bits.\<close>

definition float_40_5 :: gvalue where
  "float_40_5 = OtherV Float64 ''float64'' (Raw 0x4044400000000000)"

definition user_members :: "member list" where
  "user_members =
     [Member ''Username'' '''' [(''json'', ''username''), (''db'', ''uname'')]
        (Direct (str ''srathi'')),
      Member ''Age'' '''' [(''json'', ''age''), (''meta'', ''important'')]
        (Direct (int_v 30)),
      Member ''password'' ''github.com/ssrathi/go-attr'' []
        (Direct (str ''my_secret_123''))]"

definition user :: gvalue where
  "user = StructV ''attr.User'' user_members"

definition user_ptr :: gvalue where
  "user_ptr = PointerV (gvalue_Type user) (Some 0)"

definition heap0 :: heap where
  "heap0 = (\<lambda>a. Direct (int_v 0))(0 := Direct user, 1 := Direct user_ptr)"





text \<open>A struct whose only field is unexported: \<open>struct { token string }\<close>.\<close>

definition sealed :: gvalue where
  "sealed = StructV ''main.sealed'' [Member ''token'' ''main'' [] (Direct (str ''k''))]"

section \<open>Facts about the reflect model and the normalizer\<close>

lemma Kind_Struct_iff:
  "Value_Kind v = Struct \<longleftrightarrow> (\<exists>n ms pl ro. v = Value (Direct (StructV n ms)) pl ro)"
proof (cases v)
  case ZeroValue
  then show ?thesis by simp
next
  case (Value s pl ro)
  show ?thesis
  proof (cases s)
    case (Direct g)
    with Value show ?thesis by (cases g) simp_all
  next
    case (Boxed n c)
    with Value show ?thesis by simp
  qed
qed

lemma Kind_Ptr_iff:
  "Value_Kind v = Ptr \<longleftrightarrow> (\<exists>t p pl ro. v = Value (Direct (PointerV t p)) pl ro)"
proof (cases v)
  case ZeroValue
  then show ?thesis by simp
next
  case (Value s pl ro)
  show ?thesis
  proof (cases s)
    case (Direct g)
    with Value show ?thesis by (cases g) simp_all
  next
    case (Boxed n c)
    with Value show ?thesis by simp
  qed
qed

lemma struct_of_Some_iff:
  "struct_of h obj = Some (n, ms) \<longleftrightarrow>
     obj = Some (StructV n ms) \<or>
     (\<exists>t a. obj = Some (PointerV t (Some a)) \<and> h a = Direct (StructV n ms))"
  by (induction h obj rule: struct_of.induct)
     (auto split: slot.splits gvalue.splits)

lemma getReflectValue_struct:
  "getReflectValue h (Some (StructV n ms)) = Return (Inr (Value (Direct (StructV n ms)) None False))"
  by (simp add: getReflectValue_def ValueOf_def)

lemma getReflectValue_ptr:
  "h a = Direct (StructV n ms) \<Longrightarrow>
   getReflectValue h (Some (PointerV t (Some a))) =
     Return (Inr (Value (Direct (StructV n ms)) (Some (a, [])) False))"
  by (simp add: getReflectValue_def ValueOf_def)

lemma getReflectValue_Some:
  "struct_of h obj = Some (n, ms) \<Longrightarrow>
   \<exists>pl. getReflectValue h obj = Return (Inr (Value (Direct (StructV n ms)) pl False))"
  unfolding struct_of_Some_iff
  by (auto simp: getReflectValue_struct getReflectValue_ptr)

lemma getReflectValue_None:
  "struct_of h obj = None \<Longrightarrow> getReflectValue h obj = Return (Inl ErrNotStruct)"
  by (induction h obj rule: struct_of.induct)
     (auto simp: getReflectValue_def ValueOf_def Kind_Struct_iff
           split: slot.splits gvalue.splits)

subsection \<open>Looking a field up\<close>

lemma Name_member_decl [simp]: "Name (member_decl m) = mname m"
  by (cases m) simp

lemma PkgPath_member_decl [simp]: "PkgPath (member_decl m) = mpkg m"
  by (cases m) simp

lemma Tag_member_decl [simp]: "Tag (member_decl m) = mtag m"
  by (cases m) simp

lemma FType_member_decl [simp]: "FType (member_decl m) = slot_Type (mslot m)"
  by (cases m) simp

lemma field_index_Some_iff:
  "field_index name (map member_decl ms) = Some i \<longleftrightarrow>
     i < length ms \<and> mname (ms ! i) = name \<and> (\<forall>j<i. mname (ms ! j) \<noteq> name)"
proof (induction ms arbitrary: i)
  case Nil
  then show ?case by simp
next
  case (Cons m ms)
  show ?case
  proof (cases "mname m = name")
    case True
    then show ?thesis by (cases i) auto
  next
    case False
    show ?thesis
    proof (cases i)
      case 0
      with False show ?thesis by auto
    next
      case (Suc k)
      have "(\<forall>j<Suc k. mname ((m # ms) ! j) \<noteq> name) \<longleftrightarrow> (\<forall>j<k. mname (ms ! j) \<noteq> name)"
        using False by (auto simp: less_Suc_eq_0_disj)
      with False Suc Cons.IH [of k] show ?thesis by auto
    qed
  qed
qed

lemma field_index_None_iff:
  "field_index name (map member_decl ms) = None \<longleftrightarrow> name \<notin> mname ` set ms"
  by (induction ms) auto

lemma Type_FieldByName_is_field:
  "is_field ms name i \<Longrightarrow>
   Type_FieldByName (Some (StructType n (map member_decl ms))) name =
     Return (Some (i, member_decl (ms ! i)))"
  using field_index_Some_iff [of name ms i] by (simp add: is_field_def)

lemma Type_FieldByName_no_field:
  "\<not> (\<exists>i. is_field ms name i) \<Longrightarrow>
   Type_FieldByName (Some (StructType n (map member_decl ms))) name = Return None"
  using field_index_Some_iff [of name ms]
  by (auto simp: is_field_def split: option.splits)

lemma FieldByName_is_field:
  "is_field ms name i \<Longrightarrow>
   FieldByName (Value (Direct (StructV n ms)) pl ro) name =
     Return (Value (mslot (ms ! i))
                   (case pl of None \<Rightarrow> None | Some (a, p) \<Rightarrow> Some (a, p @ [i]))
                   (ro \<or> mpkg (ms ! i) \<noteq> ''''))"
  using field_index_Some_iff [of name ms i] by (simp add: is_field_def)

lemma FieldByName_no_field:
  "\<not> (\<exists>i. is_field ms name i) \<Longrightarrow>
   FieldByName (Value (Direct (StructV n ms)) pl ro) name = Return ZeroValue"
  using Type_FieldByName_no_field [of ms name n] by simp

declare Type_FieldByName.simps [simp del] FieldByName.simps [simp del]

subsection \<open>The four loops\<close>

lemma Names_loop_struct:
  "Names_loop (Value (Direct (StructV n ms)) pl False)
              (Some (StructType n (map member_decl ms))) i acc =
     Return (acc @ map mname (filter exported (drop i ms)))"
proof (induction "length ms - i" arbitrary: i acc)
  case 0
  then show ?case by (subst Names_loop.simps) simp
next
  case (Suc k)
  then have i: "i < length ms" and k: "k = length ms - Suc i" by arith+
  have d: "drop i ms = ms ! i # drop (Suc i) ms"
    using i by (simp add: Cons_nth_drop_Suc)
  show ?case
    using i Suc.hyps(1) [OF k]
    by (subst Names_loop.simps) (simp add: d exported_def)
qed

lemma Values_loop_struct:
  "Values_loop (Value (Direct (StructV n ms)) pl False)
               (Some (StructType n (map member_decl ms))) i vm =
     Return (fold (\<lambda>m vm. if exported m then vm(mname m \<mapsto> slot_any (mslot m)) else vm)
                  (drop i ms) vm)"
proof (induction "length ms - i" arbitrary: i vm)
  case 0
  then show ?case by (subst Values_loop.simps) simp
next
  case (Suc k)
  then have i: "i < length ms" and k: "k = length ms - Suc i" by arith+
  have d: "drop i ms = ms ! i # drop (Suc i) ms"
    using i by (simp add: Cons_nth_drop_Suc)
  show ?case
    using i Suc.hyps(1) [OF k]
    by (subst Values_loop.simps) (simp add: d exported_def)
qed

lemma Tags_loop_struct:
  "Tags_loop (Value (Direct (StructV n ms)) pl False)
             (Some (StructType n (map member_decl ms))) key i tm =
     Return (fold (\<lambda>m tm. if exported m then tm(mname m \<mapsto> Tag_Get (mtag m) key) else tm)
                  (drop i ms) tm)"
proof (induction "length ms - i" arbitrary: i tm)
  case 0
  then show ?case by (subst Tags_loop.simps) simp
next
  case (Suc k)
  then have i: "i < length ms" and k: "k = length ms - Suc i" by arith+
  have d: "drop i ms = ms ! i # drop (Suc i) ms"
    using i by (simp add: Cons_nth_drop_Suc)
  show ?case
    using i Suc.hyps(1) [OF k]
    by (subst Tags_loop.simps) (simp add: d exported_def)
qed

lemma Kinds_loop_struct:
  "Kinds_loop (Value (Direct (StructV n ms)) pl False)
              (Some (StructType n (map member_decl ms))) i km =
     Return (fold (\<lambda>m km. if exported m
                           then km(mname m \<mapsto> Kind_String (rtype_Kind (slot_Type (mslot m))))
                           else km)
                  (drop i ms) km)"
proof (induction "length ms - i" arbitrary: i km)
  case 0
  then show ?case by (subst Kinds_loop.simps) simp
next
  case (Suc k)
  then have i: "i < length ms" and k: "k = length ms - Suc i" by arith+
  have d: "drop i ms = ms ! i # drop (Suc i) ms"
    using i by (simp add: Cons_nth_drop_Suc)
  show ?case
    using i Suc.hyps(1) [OF k]
    by (subst Kinds_loop.simps) (simp add: d exported_def)
qed

lemma dom_fold_upd:
  "dom (fold (\<lambda>m vm. if P m then vm(k m \<mapsto> v m) else vm) ms vm0) =
     dom vm0 \<union> k ` {m \<in> set ms. P m}"
  by (induction ms arbitrary: vm0) auto

lemma fold_upd_other:
  "x \<notin> k ` {m \<in> set ms. P m} \<Longrightarrow>
   fold (\<lambda>m vm. if P m then vm(k m \<mapsto> v m) else vm) ms vm0 x = vm0 x"
proof (induction ms arbitrary: vm0)
  case Nil
  then show ?case by simp
next
  case (Cons a ms)
  from Cons.prems have tl: "x \<notin> k ` {m \<in> set ms. P m}" by auto
  show ?case
  proof (cases "P a")
    case True
    with Cons.prems have ne: "x \<noteq> k a" by auto
    have "fold (\<lambda>m vm. if P m then vm(k m \<mapsto> v m) else vm) ms (vm0(k a \<mapsto> v a)) x
            = (vm0(k a \<mapsto> v a)) x"
      by (rule Cons.IH [OF tl])
    also have "\<dots> = vm0 x" using ne by simp
    finally show ?thesis using True by simp
  next
    case False
    with Cons.IH [OF tl, of vm0] show ?thesis by simp
  qed
qed

lemma fold_upd_lookup:
  "distinct (map k (filter P ms)) \<Longrightarrow> m \<in> set ms \<Longrightarrow> P m \<Longrightarrow>
   fold (\<lambda>m vm. if P m then vm(k m \<mapsto> v m) else vm) ms vm0 (k m) = Some (v m)"
proof (induction ms arbitrary: vm0)
  case Nil
  then show ?case by simp
next
  case (Cons x xs)
  show ?case
  proof (cases "m = x")
    case True
    have "k x \<notin> k ` {m \<in> set xs. P m}"
      using Cons.prems True by auto
    then have "fold (\<lambda>m vm. if P m then vm(k m \<mapsto> v m) else vm) xs (vm0(k x \<mapsto> v x)) (k x)
                = (vm0(k x \<mapsto> v x)) (k x)"
      by (rule fold_upd_other)
    with True Cons.prems show ?thesis by simp
  next
    case False
    with Cons.prems have "m \<in> set xs" and "distinct (map k (filter P xs))"
      by (auto split: if_splits)
    with Cons.IH Cons.prems(3) show ?thesis by simp
  qed
qed

lemma go_fields_distinct:
  "go_fields ms \<Longrightarrow> distinct (map mname (filter exported ms))"
proof (induction ms)
  case Nil
  then show ?case by simp
next
  case (Cons m ms)
  from Cons.prems have tl: "go_fields ms"
    by (auto simp: go_fields_def split: if_splits)
  show ?case
  proof (cases "exported m")
    case False
    with Cons.IH tl show ?thesis by simp
  next
    case True
    with Cons.prems have nb: "mname m \<noteq> ''_''"
      by (auto simp: go_fields_def)
    with Cons.prems have "mname m \<notin> set (filter (\<lambda>x. x \<noteq> ''_'') (map mname ms))"
      by (simp add: go_fields_def)
    with nb have "mname m \<notin> mname ` set ms" by auto
    then have "mname m \<notin> set (map mname (filter exported ms))" by auto
    with True Cons.IH tl show ?thesis by simp
  qed
qed

subsection \<open>The read operations on a struct\<close>

lemma Names_struct:
  assumes "struct_of h obj = Some (n, ms)"
  shows "Names h obj = Return (Inr (map mname (filter exported ms)))"
proof -
  from getReflectValue_Some [OF assms] obtain pl where
    "getReflectValue h obj = Return (Inr (Value (Direct (StructV n ms)) pl False))" ..
  then show ?thesis by (simp add: Names_def Names_loop_struct)
qed

lemma Values_struct:
  assumes "struct_of h obj = Some (n, ms)"
  shows "Values h obj =
           Return (Inr (fold (\<lambda>m vm. if exported m then vm(mname m \<mapsto> slot_any (mslot m)) else vm)
                             ms Map.empty))"
proof -
  from getReflectValue_Some [OF assms] obtain pl where
    "getReflectValue h obj = Return (Inr (Value (Direct (StructV n ms)) pl False))" ..
  then show ?thesis by (simp add: Values_def Values_loop_struct)
qed

lemma Tags_struct:
  assumes "struct_of h obj = Some (n, ms)"
  shows "Tags h obj key =
           Return (Inr (fold (\<lambda>m tm. if exported m then tm(mname m \<mapsto> Tag_Get (mtag m) key) else tm)
                             ms Map.empty))"
proof -
  from getReflectValue_Some [OF assms] obtain pl where
    "getReflectValue h obj = Return (Inr (Value (Direct (StructV n ms)) pl False))" ..
  then show ?thesis by (simp add: Tags_def Tags_loop_struct)
qed

lemma Kinds_struct:
  assumes "struct_of h obj = Some (n, ms)"
  shows "Kinds h obj =
           Return (Inr (fold (\<lambda>m km. if exported m
                                       then km(mname m \<mapsto> Kind_String (rtype_Kind (slot_Type (mslot m))))
                                       else km)
                             ms Map.empty))"
proof -
  from getReflectValue_Some [OF assms] obtain pl where
    "getReflectValue h obj = Return (Inr (Value (Direct (StructV n ms)) pl False))" ..
  then show ?thesis by (simp add: Kinds_def Kinds_loop_struct)
qed

lemma GetValue_field:
  assumes "struct_of h obj = Some (n, ms)" and "is_field ms name i"
  shows "GetValue h obj name =
           Return (if exported (ms ! i) then Inr (slot_any (mslot (ms ! i)))
                   else Inl ErrUnexportedField)"
proof -
  from getReflectValue_Some [OF assms(1)] obtain pl where
    "getReflectValue h obj = Return (Inr (Value (Direct (StructV n ms)) pl False))" ..
  then show ?thesis
    by (simp add: GetValue_def FieldByName_is_field [OF assms(2)] exported_def)
qed

lemma GetValue_no_field:
  assumes "struct_of h obj = Some (n, ms)" and "\<not> (\<exists>i. is_field ms name i)"
  shows "GetValue h obj name = Return (Inl ErrNoField)"
proof -
  from getReflectValue_Some [OF assms(1)] obtain pl where
    "getReflectValue h obj = Return (Inr (Value (Direct (StructV n ms)) pl False))" ..
  then show ?thesis
    by (simp add: GetValue_def FieldByName_no_field [OF assms(2)])
qed

lemma GetKind_field:
  assumes "struct_of h obj = Some (n, ms)" and "is_field ms name i"
  shows "GetKind h obj name =
           Return (if exported (ms ! i)
                   then Inr (Kind_String (rtype_Kind (slot_Type (mslot (ms ! i)))))
                   else Inl ErrUnexportedField)"
proof -
  from getReflectValue_Some [OF assms(1)] obtain pl where
    "getReflectValue h obj = Return (Inr (Value (Direct (StructV n ms)) pl False))" ..
  then show ?thesis
    by (simp add: GetKind_def FieldByName_is_field [OF assms(2)] exported_def)
qed

lemma GetTag_field:
  assumes "struct_of h obj = Some (n, ms)" and "is_field ms name i"
  shows "GetTag h obj name key =
           Return (if exported (ms ! i) then Inr (Tag_Get (mtag (ms ! i)) key)
                   else Inl ErrUnexportedField)"
proof -
  from getReflectValue_Some [OF assms(1)] obtain pl where
    "getReflectValue h obj = Return (Inr (Value (Direct (StructV n ms)) pl False))" ..
  then show ?thesis
    by (simp add: GetTag_def Type_FieldByName_is_field [OF assms(2)] exported_def)
qed

lemma Has_struct:
  assumes "struct_of h obj = Some (n, ms)"
  shows "Has h obj name = Return (Inr (\<exists>i. is_field ms name i))"
proof -
  from getReflectValue_Some [OF assms(1)] obtain pl where
    g: "getReflectValue h obj = Return (Inr (Value (Direct (StructV n ms)) pl False))" ..
  show ?thesis
  proof (cases "\<exists>i. is_field ms name i")
    case True
    then obtain i where "is_field ms name i" ..
    from Type_FieldByName_is_field [OF this] g True show ?thesis
      by (simp add: Has_def)
  next
    case False
    from Type_FieldByName_no_field [OF this] g False show ?thesis
      by (simp add: Has_def)
  qed
qed

lemma reads_not_struct:
  assumes "struct_of h obj = None"
  shows "GetValue h obj name = Return (Inl ErrNotStruct)"
    and "Has h obj name = Return (Inl ErrNotStruct)"
    and "Names h obj = Return (Inl ErrNotStruct)"
    and "Values h obj = Return (Inl ErrNotStruct)"
    and "GetTag h obj name key = Return (Inl ErrNotStruct)"
    and "Tags h obj key = Return (Inl ErrNotStruct)"
    and "GetKind h obj name = Return (Inl ErrNotStruct)"
    and "Kinds h obj = Return (Inl ErrNotStruct)"
  using getReflectValue_None [OF assms]
  by (simp_all add: GetValue_def Has_def Names_def Values_def GetTag_def Tags_def
                    GetKind_def Kinds_def)

subsection \<open>SetValue, branch by branch\<close>

lemma gvalue_Type_not_interface: "gvalue_Type v \<noteq> InterfaceType n"
  by (cases v) simp_all

lemma TypeOf_eq_slot_Type:
  "TypeOf newValue = Some (slot_Type s) \<longleftrightarrow>
     (\<exists>v w. newValue = Some v \<and> s = Direct w \<and> gvalue_Type v = gvalue_Type w)"
  by (cases newValue; cases s) (auto simp: TypeOf_def gvalue_Type_not_interface)

lemma SetValue_not_ptr:
  "\<forall>t p. obj \<noteq> Some (PointerV t p) \<Longrightarrow>
   SetValue h obj name newValue = Return (Some ErrNotPtr, h)"
proof -
  assume "\<forall>t p. obj \<noteq> Some (PointerV t p)"
  then have "Value_Kind (ValueOf obj) \<noteq> Ptr"
    by (auto simp: Kind_Ptr_iff ValueOf_def split: option.splits)
  then show ?thesis by (simp add: SetValue_def)
qed

lemma SetValue_not_struct:
  "struct_of h (Some (PointerV t p)) = None \<Longrightarrow>
   SetValue h (Some (PointerV t p)) name newValue = Return (Some ErrNotStruct, h)"
  by (cases p)
     (auto simp: SetValue_def ValueOf_def Kind_Struct_iff split: slot.splits gvalue.splits)


lemma SetValue_field:
  assumes "h a = Direct (StructV n ms)" and "is_field ms name i"
  shows "SetValue h (Some (PointerV t (Some a))) name newValue =
           Return (if TypeOf newValue \<noteq> Some (slot_Type (mslot (ms ! i)))
                   then (Some ErrMismatchValue, h)
                   else if \<not> exported (ms ! i) then (Some ErrUnexportedField, h)
                   else (None, h(a := Direct (StructV n (with_slot ms i (Direct (the newValue)))))))"
proof (cases "TypeOf newValue = Some (slot_Type (mslot (ms ! i)))")
  case False
  then have "Some (slot_Type (mslot (ms ! i))) \<noteq> TypeOf newValue" by auto
  with assms show ?thesis
    by (simp add: SetValue_def ValueOf_def FieldByName_is_field)
next
  case True
  then obtain v w where v: "newValue = Some v" and w: "mslot (ms ! i) = Direct w"
    and vw: "gvalue_Type v = gvalue_Type w"
    unfolding TypeOf_eq_slot_Type by blast
  from assms v w vw show ?thesis
    by (simp add: SetValue_def ValueOf_def FieldByName_is_field TypeOf_def exported_def
                  with_slot_def)
qed

subsection \<open>Replacing the content of one member; the example structs\<close>

lemma length_with_slot [simp]: "length (with_slot ms i s) = length ms"
  by (simp add: with_slot_def)



lemma mname_with_slot [simp]: "mname (with_slot ms i s ! j) = mname (ms ! j)"
  by (cases "j = i"; cases "i < length ms") (simp_all add: with_slot_def list_update_beyond)

lemma is_field_with_slot [simp]: "is_field (with_slot ms i s) name j \<longleftrightarrow> is_field ms name j"
  by (simp add: is_field_def)

lemma exported_with_slot [simp]: "exported (with_slot ms i s ! j) \<longleftrightarrow> exported (ms ! j)"
  by (cases "j = i"; cases "i < length ms")
     (simp_all add: with_slot_def exported_def list_update_beyond)


lemma with_slot_twice [simp]: "with_slot (with_slot ms i s) i s' = with_slot ms i s'"
  by (cases "i < length ms") (simp_all add: with_slot_def list_update_beyond)


lemma is_field_user:
  "is_field user_members ''Username'' 0"
  "is_field user_members ''Age'' 1"
  "is_field user_members ''password'' 2"
  by (simp_all add: is_field_def user_members_def eval_nat_numeral less_Suc_eq)


lemma heap0_simps:
  "heap0 0 = Direct (StructV ''attr.User'' user_members)"
  "heap0 (Suc 0) = Direct user_ptr"
  "heap0 2 = Direct (int_v 0)"
  by (simp_all add: heap0_def user_def)


subsection \<open>Maps built by a loop; tags\<close>

lemma fold_upd_none:
  "\<forall>m \<in> set ms. \<not> P m \<Longrightarrow>
   fold (\<lambda>m vm. if P m then vm(k m \<mapsto> v m) else vm) ms vm0 = vm0"
  by (induction ms arbitrary: vm0) simp_all

lemma Tag_Get_absent: "key \<notin> fst ` set tag \<Longrightarrow> Tag_Get tag key = ''''"
  by (simp add: Tag_Get_def map_of_eq_None_iff [THEN iffD2])

subsection \<open>The package's tests, on the model\<close>

text \<open>
  The expectations of attr_test.go (\<open>TestGetValue\<close>, \<open>TestHas\<close>, \<open>TestSetValue\<close>,
  \<open>TestNames\<close>, \<open>TestValues\<close>, \<open>TestGetTag\<close>, \<open>TestTags\<close>, \<open>TestGetKind\<close>,
  \<open>TestKinds\<close>) hold of the model.
\<close>

lemma struct_of_user:
  "struct_of heap0 (Some user) = Some (''attr.User'', user_members)"
  "struct_of heap0 (Some user_ptr) = Some (''attr.User'', user_members)"
  by (simp_all add: user_def user_ptr_def heap0_simps)

lemma TestGetValue:
  "GetValue heap0 (Some user) ''Username'' = Return (Inr (Some (str ''srathi'')))"
  "GetValue heap0 (Some user) ''password'' = Return (Inl ErrUnexportedField)"
  using GetValue_field [OF struct_of_user(1) is_field_user(1)]
        GetValue_field [OF struct_of_user(1) is_field_user(3)]
  by (simp_all add: exported_def user_members_def)

lemma TestHas:
  "Has heap0 (Some user_ptr) ''Age'' = Return (Inr True)"
  "Has heap0 (Some user_ptr) ''NonExistant'' = Return (Inr False)"
proof -
  show "Has heap0 (Some user_ptr) ''Age'' = Return (Inr True)"
    using Has_struct [OF struct_of_user(2), of "''Age''"] is_field_user(2) by auto
  have "\<not> (\<exists>i. is_field user_members ''NonExistant'' i)"
    by (auto simp: is_field_def user_members_def less_Suc_eq_0_disj)
  then show "Has heap0 (Some user_ptr) ''NonExistant'' = Return (Inr False)"
    using Has_struct [OF struct_of_user(2), of "''NonExistant''"] by simp
qed

lemma TestSetValue:
  "SetValue heap0 (Some user) ''Username'' (Some (str ''new-srathi'')) = Return (Some ErrNotPtr, heap0)"
  "SetValue heap0 (Some user_ptr) ''password'' (Some (str ''new-password''))
     = Return (Some ErrUnexportedField, heap0)"
  "SetValue heap0 (Some user_ptr) ''Age'' (Some float_40_5) = Return (Some ErrMismatchValue, heap0)"
  "\<exists>h'. SetValue heap0 (Some user_ptr) ''Age'' (Some (int_v 40)) = Return (None, h')"
proof -
  show "SetValue heap0 (Some user) ''Username'' (Some (str ''new-srathi''))
          = Return (Some ErrNotPtr, heap0)"
    by (rule SetValue_not_ptr) (simp add: user_def)
  show "SetValue heap0 (Some user_ptr) ''password'' (Some (str ''new-password''))
          = Return (Some ErrUnexportedField, heap0)"
    using SetValue_field [where h = heap0 and a = 0 and t = "gvalue_Type user"
            and newValue = "Some (str ''new-password'')", OF heap0_simps(1) is_field_user(3)]
    by (simp add: user_ptr_def TypeOf_def user_members_def str_def exported_def)
  show "SetValue heap0 (Some user_ptr) ''Age'' (Some float_40_5)
          = Return (Some ErrMismatchValue, heap0)"
    using SetValue_field [where h = heap0 and a = 0 and t = "gvalue_Type user"
            and newValue = "Some float_40_5", OF heap0_simps(1) is_field_user(2)]
    by (simp add: user_ptr_def TypeOf_def user_members_def float_40_5_def int_v_def)
  show "\<exists>h'. SetValue heap0 (Some user_ptr) ''Age'' (Some (int_v 40)) = Return (None, h')"
    using SetValue_field [where h = heap0 and a = 0 and t = "gvalue_Type user"
            and newValue = "Some (int_v 40)", OF heap0_simps(1) is_field_user(2)]
    by (simp add: user_ptr_def TypeOf_def user_members_def int_v_def exported_def)
qed

lemma TestNames:
  "Names heap0 (Some user_ptr) = Return (Inr [''Username'', ''Age''])"
  using Names_struct [OF struct_of_user(2)]
  by (simp add: user_members_def exported_def)

lemma TestValues:
  "Values heap0 (Some user_ptr) =
     Return (Inr [''Username'' \<mapsto> Some (str ''srathi''), ''Age'' \<mapsto> Some (int_v 30)])"
  using Values_struct [OF struct_of_user(2)]
  by (simp add: user_members_def exported_def)

lemma TestGetTag:
  "GetTag heap0 (Some user_ptr) ''Age'' ''meta'' = Return (Inr ''important'')"
  "GetTag heap0 (Some user_ptr) ''Username'' ''json'' = Return (Inr ''username'')"
  "GetTag heap0 (Some user_ptr) ''Age'' ''db'' = Return (Inr '''')"
  "GetTag heap0 (Some user_ptr) ''password'' ''json'' = Return (Inl ErrUnexportedField)"
  using GetTag_field [OF struct_of_user(2) is_field_user(2), of "''meta''"]
        GetTag_field [OF struct_of_user(2) is_field_user(1), of "''json''"]
        GetTag_field [OF struct_of_user(2) is_field_user(2), of "''db''"]
        GetTag_field [OF struct_of_user(2) is_field_user(3), of "''json''"]
  by (simp_all add: exported_def user_members_def Tag_Get_def)

lemma TestTags:
  "Tags heap0 (Some user_ptr) ''json'' =
     Return (Inr [''Username'' \<mapsto> ''username'', ''Age'' \<mapsto> ''age''])"
  "Tags heap0 (Some user_ptr) ''db'' =
     Return (Inr [''Username'' \<mapsto> ''uname'', ''Age'' \<mapsto> ''''])"
  using Tags_struct [OF struct_of_user(2), of "''json''"]
        Tags_struct [OF struct_of_user(2), of "''db''"]
  by (simp_all add: user_members_def exported_def Tag_Get_def)

lemma TestGetKind:
  "GetKind heap0 (Some user_ptr) ''Username'' = Return (Inr ''string'')"
  "GetKind heap0 (Some user_ptr) ''Age'' = Return (Inr ''int'')"
  "GetKind heap0 (Some user) ''ABC'' = Return (Inl ErrNoField)"
proof -
  show "GetKind heap0 (Some user_ptr) ''Username'' = Return (Inr ''string'')"
    using GetKind_field [OF struct_of_user(2) is_field_user(1)]
    by (simp add: exported_def user_members_def str_def)
  show "GetKind heap0 (Some user_ptr) ''Age'' = Return (Inr ''int'')"
    using GetKind_field [OF struct_of_user(2) is_field_user(2)]
    by (simp add: exported_def user_members_def int_v_def)
  have "\<not> (\<exists>i. is_field user_members ''ABC'' i)"
    by (auto simp: is_field_def user_members_def less_Suc_eq_0_disj)
  then show "GetKind heap0 (Some user) ''ABC'' = Return (Inl ErrNoField)"
    by (simp add: GetKind_def getReflectValue_struct user_def FieldByName_no_field)
qed

lemma TestKinds:
  "Kinds heap0 (Some user_ptr) =
     Return (Inr [''Username'' \<mapsto> ''string'', ''Age'' \<mapsto> ''int''])"
  using Kinds_struct [OF struct_of_user(2)]
  by (simp add: user_members_def exported_def str_def int_v_def)

section \<open>The properties\<close>






text \<open>
  C3, as the claim states it, fails: \<open>SetValue\<close> given the \<open>int\<close> 5 returns
  \<open>ErrNotPtr\<close> and not \<open>ErrNotStruct\<close>. \<open>SetValue\<close> does not call
  \<open>getReflectValue\<close>; its first test is whether the argument is a pointer (line 89).
\<close>

theorem SetValue_int_counterexample:
  "SetValue heap0 (Some (int_v 5)) ''Age'' (Some (int_v 40)) = Return (Some ErrNotPtr, heap0) \<and>
   SetValue heap0 (Some (int_v 5)) ''Age'' (Some (int_v 40)) \<noteq> Return (Some ErrNotStruct, heap0)"
proof -
  have "SetValue heap0 (Some (int_v 5)) ''Age'' (Some (int_v 40)) = Return (Some ErrNotPtr, heap0)"
    by (rule SetValue_not_ptr) (simp add: int_v_def)
  then show ?thesis by simp
qed

text \<open>
  C3, amended. \<open>SetValue\<close> rejects every argument that is not a pointer to a struct
  variable, and the heap is as before: with \<open>ErrNotPtr\<close> when the argument is not a
  pointer at all (a struct passed by value, an \<open>int\<close>, a \<open>string\<close>, nil), and with
  \<open>ErrNotStruct\<close> when it is a pointer that does not point to a struct (a nil pointer,
  a pointer to a pointer, a pointer to an \<open>int\<close>).
\<close>

theorem SetValue_rejects:
  "((\<forall>t p. obj \<noteq> Some (PointerV t p)) \<longrightarrow>
      SetValue h obj F v = Return (Some ErrNotPtr, h)) \<and>
   (struct_of h (Some (PointerV t p)) = None \<longrightarrow>
      SetValue h (Some (PointerV t p)) F v = Return (Some ErrNotStruct, h))"
  using SetValue_not_ptr [of obj h F v] SetValue_not_struct [of h t p F v] by blast

text \<open>
  Witness: the struct \<open>user\<close> by value (the package's test), an \<open>int\<close>, nil; a nil
  pointer and the pointer to the pointer \<open>&user\<close> kept at address 1.
\<close>

theorem SetValue_rejects_witness:
  "(\<forall>t p. Some user \<noteq> Some (PointerV t p)) \<and>
   SetValue heap0 (Some user) ''Username'' (Some (str ''new-srathi'')) = Return (Some ErrNotPtr, heap0) \<and>
   (\<forall>t p. Some (int_v 5) \<noteq> Some (PointerV t p)) \<and>
   SetValue heap0 (Some (int_v 5)) ''Age'' (Some (int_v 40)) = Return (Some ErrNotPtr, heap0) \<and>
   (\<forall>t p. None \<noteq> Some (PointerV t p)) \<and>
   SetValue heap0 None ''Age'' (Some (int_v 40)) = Return (Some ErrNotPtr, heap0) \<and>
   struct_of heap0 (Some (PointerV (gvalue_Type user) None)) = None \<and>
   SetValue heap0 (Some (PointerV (gvalue_Type user) None)) ''Age'' (Some (int_v 40))
     = Return (Some ErrNotStruct, heap0) \<and>
   struct_of heap0 (Some (PointerV (gvalue_Type user_ptr) (Some 1))) = None \<and>
   SetValue heap0 (Some (PointerV (gvalue_Type user_ptr) (Some 1))) ''Age'' (Some (int_v 40))
     = Return (Some ErrNotStruct, heap0)"
proof -
  have n1: "\<forall>t p. Some user \<noteq> Some (PointerV t p)" by (simp add: user_def)
  have n2: "\<forall>t p. Some (int_v 5) \<noteq> Some (PointerV t p)" by (simp add: int_v_def)
  have n3: "\<forall>t p. None \<noteq> Some (PointerV t p)" by simp
  have n4: "struct_of heap0 (Some (PointerV (gvalue_Type user) None)) = None" by simp
  have n5: "struct_of heap0 (Some (PointerV (gvalue_Type user_ptr) (Some 1))) = None"
    by (simp add: heap0_simps user_ptr_def)
  have c1: "SetValue heap0 (Some user) ''Username'' (Some (str ''new-srathi''))
              = Return (Some ErrNotPtr, heap0)"
    using SetValue_rejects [of "Some user" heap0] n1 by blast
  have c2: "SetValue heap0 (Some (int_v 5)) ''Age'' (Some (int_v 40)) = Return (Some ErrNotPtr, heap0)"
    using SetValue_rejects [of "Some (int_v 5)" heap0] n2 by blast
  have c3: "SetValue heap0 None ''Age'' (Some (int_v 40)) = Return (Some ErrNotPtr, heap0)"
    using SetValue_rejects [of None heap0] n3 by blast
  have c4: "SetValue heap0 (Some (PointerV (gvalue_Type user) None)) ''Age'' (Some (int_v 40))
              = Return (Some ErrNotStruct, heap0)"
    using SetValue_rejects [of _ heap0 _ _ "gvalue_Type user" None] n4 by blast
  have c5: "SetValue heap0 (Some (PointerV (gvalue_Type user_ptr) (Some 1))) ''Age'' (Some (int_v 40))
              = Return (Some ErrNotStruct, heap0)"
    using SetValue_rejects [of _ heap0 _ _ "gvalue_Type user_ptr" "Some 1"] n5 by blast
  show ?thesis
    by (intro conjI n1 c1 n2 c2 n3 c3 n4 c4 n5 c5)
qed





text \<open>
  C6. \<open>getReflectValue\<close> returns a Value, the struct itself, exactly when its argument
  is a struct or a pointer to a variable that holds a struct; it follows one pointer and
  no more. For every other argument it returns \<open>ErrNotStruct\<close>, and so do the eight
  read operations: for nil, for a nil pointer, for a pointer to a pointer (to a struct
  or not), for a pointer to any other variable, and for any value that is neither a
  struct nor a pointer.
\<close>

theorem getReflectValue_cases:
  "((\<exists>v. getReflectValue h obj = Return (Inr v)) \<longleftrightarrow>
      (\<exists>n ms. obj = Some (StructV n ms)) \<or>
      (\<exists>t a n ms. obj = Some (PointerV t (Some a)) \<and> h a = Direct (StructV n ms))) \<and>
   getReflectValue h (Some (StructV n ms)) = Return (Inr (Value (Direct (StructV n ms)) None False)) \<and>
   (h a = Direct (StructV n ms) \<longrightarrow>
      getReflectValue h (Some (PointerV t (Some a)))
        = Return (Inr (Value (Direct (StructV n ms)) (Some (a, [])) False))) \<and>
   (\<not> (\<exists>v. getReflectValue h obj = Return (Inr v)) \<longrightarrow>
      getReflectValue h obj = Return (Inl ErrNotStruct) \<and>
      GetValue h obj name = Return (Inl ErrNotStruct) \<and>
      Has h obj name = Return (Inl ErrNotStruct) \<and>
      Names h obj = Return (Inl ErrNotStruct) \<and>
      Values h obj = Return (Inl ErrNotStruct) \<and>
      GetTag h obj name tagKey = Return (Inl ErrNotStruct) \<and>
      Tags h obj tagKey = Return (Inl ErrNotStruct) \<and>
      GetKind h obj name = Return (Inl ErrNotStruct) \<and>
      Kinds h obj = Return (Inl ErrNotStruct)) \<and>
   getReflectValue h None = Return (Inl ErrNotStruct) \<and>
   getReflectValue h (Some (PointerV t None)) = Return (Inl ErrNotStruct) \<and>
   (h a = Direct (PointerV t' p) \<longrightarrow>
      getReflectValue h (Some (PointerV t (Some a))) = Return (Inl ErrNotStruct)) \<and>
   (h a = Direct (OtherV k tn d) \<or> h a = Boxed iface c \<longrightarrow>
      getReflectValue h (Some (PointerV t (Some a))) = Return (Inl ErrNotStruct)) \<and>
   getReflectValue h (Some (OtherV k tn d)) = Return (Inl ErrNotStruct)"
proof -
  have iff: "(\<exists>v. getReflectValue h obj = Return (Inr v)) \<longleftrightarrow> struct_of h obj \<noteq> None"
  proof (cases "struct_of h obj")
    case None
    from getReflectValue_None [OF this] None show ?thesis by simp
  next
    case (Some r)
    obtain n' ms' where "r = (n', ms')" by (cases r)
    with Some getReflectValue_Some [of h obj n' ms'] show ?thesis by auto
  qed
  have ex: "struct_of h obj \<noteq> None \<longleftrightarrow>
      (\<exists>n ms. obj = Some (StructV n ms)) \<or>
      (\<exists>t a n ms. obj = Some (PointerV t (Some a)) \<and> h a = Direct (StructV n ms))"
    using struct_of_Some_iff [of h obj] by auto
  have none: "struct_of h obj = None" if "\<not> (\<exists>v. getReflectValue h obj = Return (Inr v))"
    using that iff by (cases "struct_of h obj") auto
  have pp: "getReflectValue h (Some (PointerV t (Some a))) = Return (Inl ErrNotStruct)"
    if "h a = Direct (PointerV t' p)"
    using that by (intro getReflectValue_None) simp
  have po: "getReflectValue h (Some (PointerV t (Some a))) = Return (Inl ErrNotStruct)"
    if "h a = Direct (OtherV k tn d) \<or> h a = Boxed iface c"
    using that by (intro getReflectValue_None) auto
  have part1: "(\<exists>v. getReflectValue h obj = Return (Inr v)) \<longleftrightarrow>
      (\<exists>n ms. obj = Some (StructV n ms)) \<or>
      (\<exists>t a n ms. obj = Some (PointerV t (Some a)) \<and> h a = Direct (StructV n ms))"
    using iff ex by simp
  have part3: "h a = Direct (StructV n ms) \<longrightarrow>
      getReflectValue h (Some (PointerV t (Some a)))
        = Return (Inr (Value (Direct (StructV n ms)) (Some (a, [])) False))"
    using getReflectValue_ptr [of h a n ms t] by blast
  have part4: "\<not> (\<exists>v. getReflectValue h obj = Return (Inr v)) \<longrightarrow>
      getReflectValue h obj = Return (Inl ErrNotStruct) \<and>
      GetValue h obj name = Return (Inl ErrNotStruct) \<and>
      Has h obj name = Return (Inl ErrNotStruct) \<and>
      Names h obj = Return (Inl ErrNotStruct) \<and>
      Values h obj = Return (Inl ErrNotStruct) \<and>
      GetTag h obj name tagKey = Return (Inl ErrNotStruct) \<and>
      Tags h obj tagKey = Return (Inl ErrNotStruct) \<and>
      GetKind h obj name = Return (Inl ErrNotStruct) \<and>
      Kinds h obj = Return (Inl ErrNotStruct)"
    using getReflectValue_None [OF none] reads_not_struct [OF none] by (intro impI conjI)
  have part5: "getReflectValue h None = Return (Inl ErrNotStruct)"
    by (intro getReflectValue_None) simp
  have part6: "getReflectValue h (Some (PointerV t None)) = Return (Inl ErrNotStruct)"
    by (intro getReflectValue_None) simp
  have part9: "getReflectValue h (Some (OtherV k tn d)) = Return (Inl ErrNotStruct)"
    by (intro getReflectValue_None) simp
  from pp have part7: "h a = Direct (PointerV t' p) \<longrightarrow>
      getReflectValue h (Some (PointerV t (Some a))) = Return (Inl ErrNotStruct)" by blast
  from po have part8: "h a = Direct (OtherV k tn d) \<or> h a = Boxed iface c \<longrightarrow>
      getReflectValue h (Some (PointerV t (Some a))) = Return (Inl ErrNotStruct)" by blast
  show ?thesis
    by (intro conjI part1 getReflectValue_struct part3 part4 part5 part6 part7 part8 part9)
qed

text \<open>
  Witness: \<open>user\<close> and \<open>&user\<close> are accepted; the pointer to the pointer \<open>&user\<close>
  (at address 1) and a pointer to the \<open>int\<close> at address 2 are refused, the first by
  every read operation.
\<close>

theorem getReflectValue_cases_witness:
  "getReflectValue heap0 (Some user)
     = Return (Inr (Value (Direct (StructV ''attr.User'' user_members)) None False)) \<and>
   heap0 0 = Direct (StructV ''attr.User'' user_members) \<and>
   getReflectValue heap0 (Some user_ptr)
     = Return (Inr (Value (Direct (StructV ''attr.User'' user_members)) (Some (0, [])) False)) \<and>
   heap0 1 = Direct (PointerV (gvalue_Type user) (Some 0)) \<and>
   \<not> (\<exists>v. getReflectValue heap0 (Some (PointerV (gvalue_Type user_ptr) (Some 1))) = Return (Inr v)) \<and>
   getReflectValue heap0 (Some (PointerV (gvalue_Type user_ptr) (Some 1))) = Return (Inl ErrNotStruct) \<and>
   GetValue heap0 (Some (PointerV (gvalue_Type user_ptr) (Some 1))) ''Age'' = Return (Inl ErrNotStruct) \<and>
   Has heap0 (Some (PointerV (gvalue_Type user_ptr) (Some 1))) ''Age'' = Return (Inl ErrNotStruct) \<and>
   Names heap0 (Some (PointerV (gvalue_Type user_ptr) (Some 1))) = Return (Inl ErrNotStruct) \<and>
   Values heap0 (Some (PointerV (gvalue_Type user_ptr) (Some 1))) = Return (Inl ErrNotStruct) \<and>
   GetTag heap0 (Some (PointerV (gvalue_Type user_ptr) (Some 1))) ''Age'' ''json'' = Return (Inl ErrNotStruct) \<and>
   Tags heap0 (Some (PointerV (gvalue_Type user_ptr) (Some 1))) ''json'' = Return (Inl ErrNotStruct) \<and>
   GetKind heap0 (Some (PointerV (gvalue_Type user_ptr) (Some 1))) ''Age'' = Return (Inl ErrNotStruct) \<and>
   Kinds heap0 (Some (PointerV (gvalue_Type user_ptr) (Some 1))) = Return (Inl ErrNotStruct) \<and>
   heap0 2 = Direct (OtherV Int' ''int'' (I 0)) \<and>
   getReflectValue heap0 (Some (PointerV int_t (Some 2))) = Return (Inl ErrNotStruct)"
proof -
  let ?pp = "Some (PointerV (gvalue_Type user_ptr) (Some 1))"
  have h1: "heap0 1 = Direct (PointerV (gvalue_Type user) (Some 0))"
    by (simp add: heap0_def user_ptr_def)
  have h2: "heap0 2 = Direct (OtherV Int' ''int'' (I 0))"
    by (simp add: heap0_def int_v_def)
  note r0 = getReflectValue_cases [where h = heap0 and obj = ?pp and a = 0
              and n = "''attr.User''" and ms = user_members and t = "gvalue_Type user"
              and name = "''Age''" and tagKey = "''json''"]
  note r1 = getReflectValue_cases [where h = heap0 and a = 1 and t = "gvalue_Type user_ptr"
              and t' = "gvalue_Type user" and p = "Some 0"]
  note r2 = getReflectValue_cases [where h = heap0 and a = 2 and t = int_t
              and k = Int' and tn = "''int''" and d = "I 0"]
  from r0 have c1: "getReflectValue heap0 (Some user)
     = Return (Inr (Value (Direct (StructV ''attr.User'' user_members)) None False))"
    unfolding user_def by blast
  from r0 heap0_simps(1) have c2: "getReflectValue heap0 (Some user_ptr)
     = Return (Inr (Value (Direct (StructV ''attr.User'' user_members)) (Some (0, [])) False))"
    unfolding user_ptr_def by blast
  from r1 h1 have c4: "getReflectValue heap0 ?pp = Return (Inl ErrNotStruct)" by blast
  then have c3: "\<not> (\<exists>v. getReflectValue heap0 ?pp = Return (Inr v))" by simp
  from r0 c3 have c5: "GetValue heap0 ?pp ''Age'' = Return (Inl ErrNotStruct)"
    and c6: "Has heap0 ?pp ''Age'' = Return (Inl ErrNotStruct)"
    and c7: "Names heap0 ?pp = Return (Inl ErrNotStruct)"
    and c8: "Values heap0 ?pp = Return (Inl ErrNotStruct)"
    and c9: "GetTag heap0 ?pp ''Age'' ''json'' = Return (Inl ErrNotStruct)"
    and c10: "Tags heap0 ?pp ''json'' = Return (Inl ErrNotStruct)"
    and c11: "GetKind heap0 ?pp ''Age'' = Return (Inl ErrNotStruct)"
    and c12: "Kinds heap0 ?pp = Return (Inl ErrNotStruct)"
    by blast+
  from r2 h2 have c13: "getReflectValue heap0 (Some (PointerV int_t (Some 2))) = Return (Inl ErrNotStruct)"
    by blast
  show ?thesis
    by (intro conjI c1 heap0_simps(1) c2 h1 c3 c4 c5 c6 c7 c8 c9 c10 c11 c12 h2 c13)
qed

text \<open>
  C7. For a struct, given by value or by pointer, whose fields are as Go admits them
  (a name declared once, blank fields unexported): \<open>Names\<close> returns the names of the
  exported fields in declaration order, without duplicates; \<open>Values\<close>, \<open>Tags\<close> and
  \<open>Kinds\<close> return maps whose keys are exactly these names, as many keys as \<open>Names\<close>
  has entries; \<open>Tags\<close> gives every exported field the value of the tag key, which is
  the empty string for a field without the key.
\<close>

theorem enumeration_keys:
  assumes "struct_of h obj = Some (n, ms)" and "go_fields ms"
  shows "\<exists>names vals tags kinds.
           Names h obj = Return (Inr names) \<and>
           names = map mname (filter exported ms) \<and>
           distinct names \<and>
           Values h obj = Return (Inr vals) \<and>
           dom vals = set names \<and> card (dom vals) = length names \<and>
           Tags h obj tagKey = Return (Inr tags) \<and>
           dom tags = set names \<and>
           (\<forall>m \<in> set ms. exported m \<longrightarrow> tags (mname m) = Some (Tag_Get (mtag m) tagKey)) \<and>
           (\<forall>m \<in> set ms. exported m \<and> tagKey \<notin> fst ` set (mtag m) \<longrightarrow> tags (mname m) = Some '''') \<and>
           Kinds h obj = Return (Inr kinds) \<and>
           dom kinds = set names"
proof -
  let ?names = "map mname (filter exported ms)"
  let ?vals = "fold (\<lambda>m vm. if exported m then vm(mname m \<mapsto> slot_any (mslot m)) else vm)
                    ms Map.empty"
  let ?tags = "fold (\<lambda>m tm. if exported m then tm(mname m \<mapsto> Tag_Get (mtag m) tagKey) else tm)
                    ms Map.empty"
  let ?kinds = "fold (\<lambda>m km. if exported m
                               then km(mname m \<mapsto> Kind_String (rtype_Kind (slot_Type (mslot m))))
                               else km)
                     ms Map.empty"
  have d: "distinct ?names" by (rule go_fields_distinct [OF assms(2)])
  have s: "set ?names = mname ` {m \<in> set ms. exported m}" by auto
  have dv: "dom ?vals = set ?names" unfolding s by (simp add: dom_fold_upd)
  have dt: "dom ?tags = set ?names" unfolding s by (simp add: dom_fold_upd)
  have dk: "dom ?kinds = set ?names" unfolding s by (simp add: dom_fold_upd)
  have cv: "card (dom ?vals) = length ?names"
    unfolding dv using d by (rule distinct_card)
  have tg: "\<forall>m \<in> set ms. exported m \<longrightarrow> ?tags (mname m) = Some (Tag_Get (mtag m) tagKey)"
    using fold_upd_lookup [of mname exported ms _ "\<lambda>m. Tag_Get (mtag m) tagKey" Map.empty] d
    by blast
  then have te: "\<forall>m \<in> set ms. exported m \<and> tagKey \<notin> fst ` set (mtag m) \<longrightarrow> ?tags (mname m) = Some ''''"
    by (simp add: Tag_Get_absent)
  show ?thesis
    using Names_struct [OF assms(1)] Values_struct [OF assms(1)]
          Tags_struct [OF assms(1), of tagKey] Kinds_struct [OF assms(1)]
          d dv cv dt tg te dk
    by (intro exI [of _ ?names] exI [of _ ?vals] exI [of _ ?tags] exI [of _ ?kinds])
       (intro conjI refl; assumption)
qed

text \<open>
  Witness: \<open>Names(&user)\<close> is \<open>[Username, Age]\<close> and \<open>Tags(&user, "db")\<close> maps
  \<open>Age\<close>, which has no \<open>db\<close> tag, to the empty string, as in the package's tests.
\<close>

theorem enumeration_keys_witness:
  "struct_of heap0 (Some user_ptr) = Some (''attr.User'', user_members) \<and>
   go_fields user_members \<and>
   Names heap0 (Some user_ptr) = Return (Inr [''Username'', ''Age'']) \<and>
   (\<exists>vals. Values heap0 (Some user_ptr) = Return (Inr vals) \<and>
           dom vals = {''Username'', ''Age''} \<and> card (dom vals) = 2) \<and>
   (\<exists>tags. Tags heap0 (Some user_ptr) ''db'' = Return (Inr tags) \<and>
           dom tags = {''Username'', ''Age''} \<and>
           tags ''Username'' = Some ''uname'' \<and> tags ''Age'' = Some '''') \<and>
   (\<exists>kinds. Kinds heap0 (Some user_ptr) = Return (Inr kinds) \<and>
            dom kinds = {''Username'', ''Age''})"
proof -
  have p: "struct_of heap0 (Some user_ptr) = Some (''attr.User'', user_members)"
    by (simp add: user_ptr_def heap0_simps)
  have g: "go_fields user_members"
    by (simp add: go_fields_def user_members_def exported_def)
  have nm: "map mname (filter exported user_members) = [''Username'', ''Age'']"
    by (simp add: user_members_def exported_def)
  have m0: "Member ''Username'' '''' [(''json'', ''username''), (''db'', ''uname'')]
              (Direct (str ''srathi'')) \<in> set user_members"
    and m1: "Member ''Age'' '''' [(''json'', ''age''), (''meta'', ''important'')]
              (Direct (int_v 30)) \<in> set user_members"
    by (simp_all add: user_members_def)
  from enumeration_keys [OF p g, of "''db''"] obtain names vals tags kinds where
    n: "Names heap0 (Some user_ptr) = Return (Inr names)"
      "names = map mname (filter exported user_members)"
    and v: "Values heap0 (Some user_ptr) = Return (Inr vals)"
      "dom vals = set names" "card (dom vals) = length names"
    and t: "Tags heap0 (Some user_ptr) ''db'' = Return (Inr tags)"
      "dom tags = set names"
      "\<forall>m \<in> set user_members. exported m \<longrightarrow> tags (mname m) = Some (Tag_Get (mtag m) ''db'')"
      "\<forall>m \<in> set user_members. exported m \<and> ''db'' \<notin> fst ` set (mtag m) \<longrightarrow> tags (mname m) = Some ''''"
    and k: "Kinds heap0 (Some user_ptr) = Return (Inr kinds)" "dom kinds = set names"
    by blast
  from n nm have c1: "Names heap0 (Some user_ptr) = Return (Inr [''Username'', ''Age''])"
    by simp
  from v n(2) nm have c2: "\<exists>vals. Values heap0 (Some user_ptr) = Return (Inr vals) \<and>
           dom vals = {''Username'', ''Age''} \<and> card (dom vals) = 2"
    by auto
  from t(3) m0 have t0: "tags ''Username'' = Some ''uname''"
    by (force simp: exported_def Tag_Get_def)
  from t(4) m1 have t1: "tags ''Age'' = Some ''''"
    by (force simp: exported_def)
  from t(1,2) n(2) nm t0 t1 have c3: "\<exists>tags. Tags heap0 (Some user_ptr) ''db'' = Return (Inr tags) \<and>
           dom tags = {''Username'', ''Age''} \<and>
           tags ''Username'' = Some ''uname'' \<and> tags ''Age'' = Some ''''"
    by auto
  from k n(2) nm have c4: "\<exists>kinds. Kinds heap0 (Some user_ptr) = Return (Inr kinds) \<and>
            dom kinds = {''Username'', ''Age''}"
    by auto
  show ?thesis
    by (intro conjI p g c1 c2 c3 c4)
qed

text \<open>
  C8. Each of \<open>Names\<close>, \<open>Values\<close>, \<open>Tags\<close> and \<open>Kinds\<close> returns an error exactly
  when \<open>getReflectValue\<close> does, and the same one, which can only be \<open>ErrNotStruct\<close>;
  when \<open>getReflectValue\<close> returns a struct, each returns a result and no error.
  \<open>getReflectValue\<close> always does one or the other. For a struct without exported
  fields the results are the empty list and the empty maps.
\<close>

theorem enumeration_errors:
  "(\<forall>e. Names h obj = Return (Inl e) \<longleftrightarrow> getReflectValue h obj = Return (Inl e)) \<and>
   (\<forall>e. Values h obj = Return (Inl e) \<longleftrightarrow> getReflectValue h obj = Return (Inl e)) \<and>
   (\<forall>e. Tags h obj tagKey = Return (Inl e) \<longleftrightarrow> getReflectValue h obj = Return (Inl e)) \<and>
   (\<forall>e. Kinds h obj = Return (Inl e) \<longleftrightarrow> getReflectValue h obj = Return (Inl e)) \<and>
   (\<forall>e. getReflectValue h obj = Return (Inl e) \<longrightarrow> e = ErrNotStruct) \<and>
   (getReflectValue h obj = Return (Inl ErrNotStruct) \<or>
    (\<exists>v. getReflectValue h obj = Return (Inr v))) \<and>
   ((\<exists>v. getReflectValue h obj = Return (Inr v)) \<longrightarrow>
      (\<exists>names. Names h obj = Return (Inr names)) \<and>
      (\<exists>vals. Values h obj = Return (Inr vals)) \<and>
      (\<exists>tags. Tags h obj tagKey = Return (Inr tags)) \<and>
      (\<exists>kinds. Kinds h obj = Return (Inr kinds))) \<and>
   (\<forall>n ms. struct_of h obj = Some (n, ms) \<and> (\<forall>m \<in> set ms. \<not> exported m) \<longrightarrow>
      Names h obj = Return (Inr []) \<and>
      Values h obj = Return (Inr Map.empty) \<and>
      Tags h obj tagKey = Return (Inr Map.empty) \<and>
      Kinds h obj = Return (Inr Map.empty))"
proof (cases "struct_of h obj")
  case None
  from getReflectValue_None [OF None] reads_not_struct(3,4,6,8) [OF None] None
  show ?thesis by auto
next
  case (Some r)
  obtain n ms where r: "struct_of h obj = Some (n, ms)"
    using Some by (cases r) simp
  from getReflectValue_Some [OF r] obtain pl where
    g: "getReflectValue h obj = Return (Inr (Value (Direct (StructV n ms)) pl False))" ..
  have e: "filter exported ms = []" if "\<forall>m \<in> set ms. \<not> exported m"
    using that by (simp add: filter_empty_conv)
  show ?thesis
    using g r Names_struct [OF r] Values_struct [OF r] Tags_struct [OF r, of tagKey]
          Kinds_struct [OF r]
    by (auto simp: fold_upd_none e)
qed

text \<open>
  Witness: the struct \<open>sealed\<close>, which has no exported field, gets the empty results;
  the \<open>int\<close> 5 gets \<open>ErrNotStruct\<close> from the normalizer and from the four operations.
\<close>

theorem enumeration_errors_witness:
  "struct_of heap0 (Some sealed) = Some (''main.sealed'', [Member ''token'' ''main'' [] (Direct (str ''k''))]) \<and>
   \<not> exported (Member ''token'' ''main'' [] (Direct (str ''k''))) \<and>
   (\<exists>v. getReflectValue heap0 (Some sealed) = Return (Inr v)) \<and>
   Names heap0 (Some sealed) = Return (Inr []) \<and>
   Values heap0 (Some sealed) = Return (Inr Map.empty) \<and>
   Tags heap0 (Some sealed) ''json'' = Return (Inr Map.empty) \<and>
   Kinds heap0 (Some sealed) = Return (Inr Map.empty) \<and>
   getReflectValue heap0 (Some (int_v 5)) = Return (Inl ErrNotStruct) \<and>
   Names heap0 (Some (int_v 5)) = Return (Inl ErrNotStruct) \<and>
   Values heap0 (Some (int_v 5)) = Return (Inl ErrNotStruct) \<and>
   Tags heap0 (Some (int_v 5)) ''json'' = Return (Inl ErrNotStruct) \<and>
   Kinds heap0 (Some (int_v 5)) = Return (Inl ErrNotStruct)"
proof -
  let ?ms = "[Member ''token'' ''main'' [] (Direct (str ''k''))]"
  have s: "struct_of heap0 (Some sealed) = Some (''main.sealed'', ?ms)"
    by (simp add: sealed_def)
  have nex: "\<not> exported (Member ''token'' ''main'' [] (Direct (str ''k'')))"
    by (simp add: exported_def)
  then have hid: "\<forall>m \<in> set ?ms. \<not> exported m"
    by simp
  note r = enumeration_errors [of heap0 "Some sealed" "''json''"]
  note q = enumeration_errors [of heap0 "Some (int_v 5)" "''json''"]
  from r s hid have e: "Names heap0 (Some sealed) = Return (Inr []) \<and>
      Values heap0 (Some sealed) = Return (Inr Map.empty) \<and>
      Tags heap0 (Some sealed) ''json'' = Return (Inr Map.empty) \<and>
      Kinds heap0 (Some sealed) = Return (Inr Map.empty)"
    by blast
  from e have c1: "Names heap0 (Some sealed) = Return (Inr [])"
    and c2: "Values heap0 (Some sealed) = Return (Inr Map.empty)"
    and c3: "Tags heap0 (Some sealed) ''json'' = Return (Inr Map.empty)"
    and c4: "Kinds heap0 (Some sealed) = Return (Inr Map.empty)"
    by blast+
  have c0: "\<exists>v. getReflectValue heap0 (Some sealed) = Return (Inr v)"
  proof -
    from r have "getReflectValue heap0 (Some sealed) = Return (Inl ErrNotStruct) \<or>
                 (\<exists>v. getReflectValue heap0 (Some sealed) = Return (Inr v))" by blast
    moreover from r have "Names heap0 (Some sealed) = Return (Inl ErrNotStruct)"
      if "getReflectValue heap0 (Some sealed) = Return (Inl ErrNotStruct)"
      using that by blast
    ultimately show ?thesis using c1 by auto
  qed
  have n: "\<not> (\<exists>v. getReflectValue heap0 (Some (int_v 5)) = Return (Inr v))"
    by (simp add: getReflectValue_def ValueOf_def int_v_def)
  from q n have d0: "getReflectValue heap0 (Some (int_v 5)) = Return (Inl ErrNotStruct)"
    by blast
  from q d0 have d1: "Names heap0 (Some (int_v 5)) = Return (Inl ErrNotStruct)"
    and d2: "Values heap0 (Some (int_v 5)) = Return (Inl ErrNotStruct)"
    and d3: "Tags heap0 (Some (int_v 5)) ''json'' = Return (Inl ErrNotStruct)"
    and d4: "Kinds heap0 (Some (int_v 5)) = Return (Inl ErrNotStruct)"
    by blast+
  show ?thesis
    by (intro conjI s nex c0 c1 c2 c3 c4 d0 d1 d2 d3 d4)
qed






end
